theory Spec2Isabelle
  imports Main
begin

section \<open>Python strings\<close>

text \<open>
  A Python \<open>str\<close> is modelled as a \<^typ>\<open>string\<close>: a list of code points below 256.
  On this range \<open>str.isspace\<close>, \<open>str.strip\<close>, \<open>str.lower\<close>, \<open>in\<close> and
  \<open>str.split\<close> are written out as Python computes them; \<open>len\<close> is \<^const>\<open>length\<close>.
  Code points from 256 on (the Cyrillic letters of the name pattern among them) are outside
  the model.
\<close>

definition isspace :: "char \<Rightarrow> bool" where
  "isspace c = ((of_char c :: nat) \<in> {9, 10, 11, 12, 13, 28, 29, 30, 31, 32, 133, 160})"

definition strip :: "string \<Rightarrow> string" where
  "strip s = rev (dropWhile isspace (rev (dropWhile isspace s)))"

definition lower_char :: "char \<Rightarrow> char" where
  "lower_char c =
     (let n = (of_char c :: nat)
      in if (65 \<le> n \<and> n \<le> 90) \<or> (192 \<le> n \<and> n \<le> 222 \<and> n \<noteq> 215)
         then char_of (n + 32) else c)"

definition lower :: "string \<Rightarrow> string" where
  "lower s = map lower_char s"

fun starts_with :: "string \<Rightarrow> string \<Rightarrow> bool" where
  "starts_with [] s = True"
| "starts_with (w # ws) [] = False"
| "starts_with (w # ws) (c # s) = (w = c \<and> starts_with ws s)"

text \<open>\<open>w in s\<close> on strings: \<open>w\<close> occurs in \<open>s\<close> as a contiguous substring.\<close>

fun py_in :: "string \<Rightarrow> string \<Rightarrow> bool" where
  "py_in w [] = (w = [])"
| "py_in w (c # s) = (starts_with w (c # s) \<or> py_in w s)"

text \<open>\<open>s.split(sep)\<close> for a separator of one character.\<close>

fun split :: "char \<Rightarrow> string \<Rightarrow> string list" where
  "split sep [] = [[]]"
| "split sep (c # s) =
     (if c = sep then [] # split sep s
      else (case split sep s of [] \<Rightarrow> [[c]] | p # ps \<Rightarrow> (c # p) # ps))"

text \<open>
  \<open>re.search(r'(.)\1{10,}', s)\<close>: some position holds a character that \<open>.\<close> matches
  (any character but the newline, as no flag is given) and the next ten characters repeat it.
\<close>

fun repeated_chars :: "string \<Rightarrow> bool" where
  "repeated_chars [] = False"
| "repeated_chars (c # s) =
     ((c \<noteq> CHR 0x0A \<and> 10 \<le> length (takeWhile (\<lambda>x. x = c) s)) \<or> repeated_chars s)"

text \<open>
  \<open>re.match(r'^[a-zA-Z...\s\-\.]+$', s)\<close> on code points below 256: the string is not
  empty and each character is a Latin letter, whitespace, a hyphen or a full stop. (A final
  newline, which \<open>$\<close> would skip, is whitespace and so in the class anyway.)
\<close>

definition name_char :: "char \<Rightarrow> bool" where
  "name_char c =
     (let n = (of_char c :: nat)
      in (97 \<le> n \<and> n \<le> 122) \<or> (65 \<le> n \<and> n \<le> 90) \<or> isspace c
         \<or> c = CHR ''-'' \<or> c = CHR ''.'')"

definition name_match :: "string \<Rightarrow> bool" where
  "name_match s = (s \<noteq> [] \<and> list_all name_char s)"

section \<open>Library functions and settings\<close>

text \<open>
  \<open>django.utils.html.strip_tags\<close>, \<open>bleach.clean(text, tags=..., strip=True)\<close> and
  Django's \<open>EmailValidator\<close> are third-party functions that the repository only calls;
  they are parameters of the model. \<open>bleach_clean\<close> takes the list of allowed tags first.
\<close>

record library =
  strip_tags :: "string \<Rightarrow> string"
  bleach_clean :: "string list \<Rightarrow> string \<Rightarrow> string"
  EmailValidator :: "string \<Rightarrow> bool"

text \<open>
  The allow-list that \<open>bleach.clean\<close> uses when the caller passes no \<open>tags\<close> argument
  (\<open>bleach.sanitizer.ALLOWED_TAGS\<close>).
\<close>

definition ALLOWED_TAGS :: "string list" where
  "ALLOWED_TAGS =
     [''a'', ''abbr'', ''acronym'', ''b'', ''blockquote'', ''code'', ''em'', ''i'', ''li'',
      ''ol'', ''strong'', ''ul'']"

text \<open>
  An instance of the library for evaluating the model at concrete inputs. On a text without
  the characters \<open><\<close>, \<open>>\<close> and \<open>&\<close> both sanitizers return the text as it is, and so does
  this instance; it is applied to such texts only, and to addresses that the e-mail
  validator accepts.
\<close>

definition plain_text_library :: library where
  "plain_text_library =
     \<lparr>strip_tags = (\<lambda>s. s), bleach_clean = (\<lambda>tags s. s), EmailValidator = (\<lambda>s. True)\<rparr>"

section \<open>Field validators of the create serializer\<close>

datatype verr =
    Required | Null | Blank | InvalidChoice | InvalidEmail
  | MinLength nat | MaxLength nat | NullCharacter
  | EmailRequired | TempMail
  | ThemeEmpty | ThemeTooShort | ThemeTooLong | SpamWords
  | NameRequired | NameTooShort | NameTooLong | NameCharset
  | CompanyTooLong
  | MessageRequired | MessageTooShort | MessageTooLong | RepeatedChars
  | BadActor | Duplicate

definition suspicious_domains :: "string list" where
  "suspicious_domains =
     [''tempmail.org'', ''10minutemail.com'', ''guerrillamail.com'',
      ''mailinator.com'', ''temp-mail.org'']"

definition spam_words :: "string list" where
  "spam_words = [''casino'', ''viagra'', ''free money'', ''click here'', ''win now'']"

definition allowed_tags :: "string list" where
  "allowed_tags = [''p'', ''br'', ''strong'', ''em'', ''u'']"

definition ACTOR_CHOICES :: "string list" where
  "ACTOR_CHOICES = [''advertiser'', ''author'', ''question'']"

definition STATUS_CHOICES :: "string list" where
  "STATUS_CHOICES = [''new'', ''completed'', ''rejected'']"

definition validate_email :: "string \<Rightarrow> verr + string" where
  "validate_email v =
     (if v = [] then Inl EmailRequired
      else let domain = (if CHR ''@'' \<in> set v then lower (split (CHR ''@'') v ! 1) else [])
           in if domain \<in> set suspicious_domains then Inl TempMail
              else Inr (strip (lower v)))"

definition validate_theme :: "library \<Rightarrow> string \<Rightarrow> verr + string" where
  "validate_theme L v =
     (if v = [] \<or> strip v = [] then Inl ThemeEmpty
      else let clean_value = strip (strip_tags L v)
           in if length clean_value < 5 then Inl ThemeTooShort
              else if length clean_value > 200 then Inl ThemeTooLong
              else if list_ex (\<lambda>w. py_in w (lower clean_value)) spam_words then Inl SpamWords
              else Inr clean_value)"

definition validate_name_person :: "library \<Rightarrow> string \<Rightarrow> verr + string" where
  "validate_name_person L v =
     (if v = [] \<or> strip v = [] then Inl NameRequired
      else let clean_value = strip (strip_tags L v)
           in if length clean_value < 2 then Inl NameTooShort
              else if length clean_value > 100 then Inl NameTooLong
              else if \<not> name_match clean_value then Inl NameCharset
              else Inr clean_value)"

text \<open>The company is optional: \<open>None\<close> is Python's \<open>None\<close>.\<close>

definition validate_name_company :: "library \<Rightarrow> string option \<Rightarrow> verr + string option" where
  "validate_name_company L v =
     (case v of
        None \<Rightarrow> Inr None
      | Some s \<Rightarrow>
          if s \<noteq> [] then
            (let clean_value = strip (strip_tags L s)
             in if length clean_value > 150 then Inl CompanyTooLong else Inr (Some clean_value))
          else Inr (Some s))"

definition validate_message :: "library \<Rightarrow> string \<Rightarrow> verr + string" where
  "validate_message L v =
     (if v = [] \<or> strip v = [] then Inl MessageRequired
      else let clean_value = strip (bleach_clean L allowed_tags v)
           in if length clean_value < 10 then Inl MessageTooShort
              else if length clean_value > 2000 then Inl MessageTooLong
              else if list_ex (\<lambda>w. py_in w (lower clean_value)) spam_words then Inl SpamWords
              else if repeated_chars clean_value then Inl RepeatedChars
              else Inr clean_value)"

definition validate_actor :: "string \<Rightarrow> verr + string" where
  "validate_actor v = (if v \<notin> set ACTOR_CHOICES then Inl BadActor else Inr v)"

section \<open>Stored records\<close>

text \<open>
  A row of the \<open>Feedback\<close> table. \<open>pk\<close> is \<open>None\<close> until the row is inserted. Times are
  counted in microseconds, so \<open>timedelta(hours=1)\<close> is \<open>hour\<close>.
\<close>

record feedback =
  pk :: "nat option"
  created_at :: int
  actor :: string
  theme :: string
  email :: string
  name_company :: "string option"
  name_person :: string
  message :: string
  status :: string
  ip_address :: "string option"
  user_agent :: "string option"
  updated_at :: int

record db =
  rows :: "feedback list"
  next_pk :: nat

definition hour :: int where
  "hour = 3600000000"

text \<open>The body of \<open>Feedback.save\<close> before \<open>super().save()\<close>.\<close>

definition Feedback_clean :: "library \<Rightarrow> feedback \<Rightarrow> feedback" where
  "Feedback_clean L r =
     (let r1 = (if theme r \<noteq> [] then r\<lparr>theme := bleach_clean L ALLOWED_TAGS (theme r)\<rparr> else r);
          r2 = (if name_person r1 \<noteq> []
                then r1\<lparr>name_person := bleach_clean L ALLOWED_TAGS (name_person r1)\<rparr> else r1);
          r3 = (case name_company r2 of
                  Some c \<Rightarrow>
                    if c \<noteq> [] then r2\<lparr>name_company := Some (bleach_clean L ALLOWED_TAGS c)\<rparr>
                    else r2
                | None \<Rightarrow> r2)
      in if message r3 \<noteq> [] then r3\<lparr>message := bleach_clean L allowed_tags (message r3)\<rparr>
         else r3)"

text \<open>
  \<open>Feedback.save\<close>: the cleaning above, then Django's \<open>Model.save\<close>, which updates the row
  with the instance's primary key or inserts a new row (\<open>auto_now_add\<close> sets \<open>created_at\<close>
  on insert, \<open>auto_now\<close> sets \<open>updated_at\<close> on every save).
\<close>

definition Feedback_save :: "library \<Rightarrow> int \<Rightarrow> db \<Rightarrow> feedback \<Rightarrow> feedback \<times> db" where
  "Feedback_save L now d r =
     (let c = Feedback_clean L r
      in if pk c \<noteq> None \<and> list_ex (\<lambda>x. pk x = pk c) (rows d)
         then (let c' = c\<lparr>updated_at := now\<rparr>
               in (c', d\<lparr>rows := map (\<lambda>x. if pk x = pk c then c' else x) (rows d)\<rparr>))
         else (let c' = c\<lparr>pk := (case pk c of None \<Rightarrow> Some (next_pk d) | Some k \<Rightarrow> Some k),
                            created_at := now, updated_at := now\<rparr>
               in (c', d\<lparr>rows := rows d @ [c'], next_pk := Suc (next_pk d)\<rparr>)))"

section \<open>The create serializer\<close>

text \<open>
  \<open>request.data\<close> is a JSON object whose values are strings or \<open>null\<close>: a list of
  keys with their values, each key once. \<open>map_of\<close> looks a key up.
\<close>

datatype jvalue = JNull | JStr string

type_synonym payload = "(string \<times> jvalue) list"

text \<open>
  A validated dictionary (\<open>attrs\<close>, \<open>validated_data\<close>), in the order of insertion; a value
  \<open>None\<close> is Python's \<open>None\<close>, which is also what \<open>attrs.get\<close> gives for a missing key.
\<close>

type_synonym attrs = "(string \<times> string option) list"

definition attrs_get :: "attrs \<Rightarrow> string \<Rightarrow> string option" where
  "attrs_get a k = (case map_of a k of None \<Rightarrow> None | Some v \<Rightarrow> v)"

text \<open>
  \<open>FeedbackCreateSerializer.validate\<close>: the duplicate check. \<open>filter(email=None)\<close> selects
  the rows whose e-mail is null, of which the table has none.
\<close>

definition validate :: "db \<Rightarrow> int \<Rightarrow> attrs \<Rightarrow> verr + attrs" where
  "validate d now a =
     (let recent_feedback =
            list_ex (\<lambda>r. Some (email r) = attrs_get a ''email''
                        \<and> Some (theme r) = attrs_get a ''theme''
                        \<and> now - hour \<le> created_at r) (rows d)
      in if recent_feedback then Inl Duplicate else Inr a)"

text \<open>
  The serializer fields that \<open>ModelSerializer\<close> derives from \<open>models.py\<close> and
  \<open>extra_kwargs\<close>. A character field trims the value, refuses a blank one unless blank is
  allowed, and runs its validators on the trimmed value; all their errors are collected.
\<close>

datatype 'a outcome = Skipped | Failed "verr list" | Passed 'a

definition length_validators :: "nat option \<Rightarrow> nat option \<Rightarrow> string \<Rightarrow> verr list" where
  "length_validators mn mx s =
     (case mx of Some m \<Rightarrow> if length s > m then [MaxLength m] else [] | None \<Rightarrow> [])
     @ (case mn of Some m \<Rightarrow> if length s < m then [MinLength m] else [] | None \<Rightarrow> [])
     @ (if CHR 0x00 \<in> set s then [NullCharacter] else [])"

text \<open>\<open>CharField(required=True)\<close>.\<close>

definition char_field :: "(string \<Rightarrow> verr list) \<Rightarrow> jvalue option \<Rightarrow> string outcome" where
  "char_field validators dv =
     (case dv of
        None \<Rightarrow> Failed [Required]
      | Some JNull \<Rightarrow> Failed [Null]
      | Some (JStr s) \<Rightarrow>
          if strip s = [] then Failed [Blank]
          else (let v = strip s; errors = validators v
                in if errors \<noteq> [] then Failed errors else Passed v))"

text \<open>\<open>CharField(required=False, allow_null=True, allow_blank=True)\<close>.\<close>

definition optional_char_field ::
  "(string \<Rightarrow> verr list) \<Rightarrow> jvalue option \<Rightarrow> string option outcome" where
  "optional_char_field validators dv =
     (case dv of
        None \<Rightarrow> Skipped
      | Some JNull \<Rightarrow> Passed None
      | Some (JStr s) \<Rightarrow>
          if strip s = [] then Passed (Some [])
          else (let v = strip s; errors = validators v
                in if errors \<noteq> [] then Failed errors else Passed (Some v)))"

text \<open>\<open>ChoiceField(choices=ACTOR_CHOICES, required=True)\<close>.\<close>

definition choice_field :: "string list \<Rightarrow> jvalue option \<Rightarrow> string outcome" where
  "choice_field choices dv =
     (case dv of
        None \<Rightarrow> Failed [Required]
      | Some JNull \<Rightarrow> Failed [Null]
      | Some (JStr s) \<Rightarrow> if s \<in> set choices then Passed s else Failed [InvalidChoice])"

text \<open>
  One round of the loop of \<open>Serializer.to_internal_value\<close> for a field: the field's own
  validation, then the serializer's \<open>validate_<field>\<close> method on its result.
\<close>

definition then_validate ::
  "'a outcome \<Rightarrow> ('a \<Rightarrow> verr + 'b) \<Rightarrow> ('b \<Rightarrow> string option) \<Rightarrow> string option outcome" where
  "then_validate out validate_method wrap =
     (case out of
        Skipped \<Rightarrow> Skipped
      | Failed e \<Rightarrow> Failed e
      | Passed v \<Rightarrow> (case validate_method v of Inl e \<Rightarrow> Failed [e] | Inr w \<Rightarrow> Passed (wrap w)))"

definition run_field :: "library \<Rightarrow> string \<Rightarrow> jvalue option \<Rightarrow> string option outcome" where
  "run_field L f dv =
     (if f = ''actor'' then then_validate (choice_field ACTOR_CHOICES dv) validate_actor Some
      else if f = ''theme'' then
        then_validate (char_field (length_validators (Some 5) (Some 200)) dv)
          (validate_theme L) Some
      else if f = ''email'' then
        then_validate
          (char_field (\<lambda>s. length_validators None (Some 254) s
                            @ (if EmailValidator L s then [] else [InvalidEmail])) dv)
          validate_email Some
      else if f = ''name_company'' then
        then_validate (optional_char_field (length_validators None (Some 150)) dv)
          (validate_name_company L) (\<lambda>w. w)
      else if f = ''name_person'' then
        then_validate (char_field (length_validators (Some 2) (Some 100)) dv)
          (validate_name_person L) Some
      else if f = ''message'' then
        then_validate (char_field (length_validators (Some 10) (Some 2000)) dv)
          (validate_message L) Some
      else Skipped)"

definition create_fields :: "string list" where
  "create_fields =
     [''actor'', ''theme'', ''email'', ''name_company'', ''name_person'', ''message'']"

text \<open>
  The loop of \<open>to_internal_value\<close>: every field is run, a failure is recorded under the
  field's name and the loop goes on.
\<close>

fun fields_loop ::
  "library \<Rightarrow> payload \<Rightarrow> string list \<Rightarrow> attrs \<times> (string \<times> verr list) list
     \<Rightarrow> attrs \<times> (string \<times> verr list) list" where
  "fields_loop L d [] acc = acc"
| "fields_loop L d (f # fs) (ret, errors) =
     (case run_field L f (map_of d f) of
        Skipped \<Rightarrow> fields_loop L d fs (ret, errors)
      | Failed e \<Rightarrow> fields_loop L d fs (ret, errors @ [(f, e)])
      | Passed v \<Rightarrow> fields_loop L d fs (ret @ [(f, v)], errors))"

definition to_internal_value ::
  "library \<Rightarrow> payload \<Rightarrow> (string \<times> verr list) list + attrs" where
  "to_internal_value L d =
     (case fields_loop L d create_fields ([], []) of
        (ret, errors) \<Rightarrow> if errors \<noteq> [] then Inl errors else Inr ret)"

text \<open>
  \<open>serializer.is_valid\<close>: the fields, then \<open>validate\<close>, whose error is reported under
  \<open>non_field_errors\<close>.
\<close>

definition is_valid ::
  "library \<Rightarrow> db \<Rightarrow> int \<Rightarrow> payload \<Rightarrow> (string \<times> verr list) list + attrs" where
  "is_valid L d now p =
     (case to_internal_value L p of
        Inl errors \<Rightarrow> Inl errors
      | Inr a \<Rightarrow>
          (case validate d now a of
             Inl e \<Rightarrow> Inl [(''non_field_errors'', [e])]
           | Inr a' \<Rightarrow> Inr a'))"

section \<open>The create view\<close>

text \<open>
  A request: its JSON body, the headers and peer address in \<open>request.META\<close>, and who sends
  it (\<open>user\<close> is the primary key of the authenticated user as \<open>str\<close> prints it, \<open>None\<close> for
  an anonymous client). The requests of the model carry a valid CSRF token.
\<close>

record request =
  data :: payload
  HTTP_X_FORWARDED_FOR :: "string option"
  REMOTE_ADDR :: "string option"
  HTTP_USER_AGENT :: "string option"
  user :: "string option"
  is_staff :: bool

text \<open>
  The project's settings module is not part of the sources: \<open>BLOCKED_IPS\<close> (read by the
  view, \<open>[]\<close> when unset) and the framework's \<open>NUM_PROXIES\<close> are parameters.
\<close>

record settings =
  BLOCKED_IPS :: "string list"
  NUM_PROXIES :: "nat option"

datatype body =
    Error
  | Errors "(string \<times> verr list) list"
  | Success "nat option"
  | Detail feedback

datatype response = Response nat body

definition get_client_ip :: "request \<Rightarrow> string" where
  "get_client_ip req =
     (case HTTP_X_FORWARDED_FOR req of
        Some x \<Rightarrow>
          if x \<noteq> [] then strip (split (CHR '','') x ! 0)
          else (case REMOTE_ADDR req of None \<Rightarrow> [] | Some a \<Rightarrow> a)
      | None \<Rightarrow> (case REMOTE_ADDR req of None \<Rightarrow> [] | Some a \<Rightarrow> a))"

text \<open>
  \<open>serializer.save(ip_address=..., user_agent=...)\<close>: \<open>Feedback.objects.create\<close> builds the
  instance from the validated data and the two extra values, the status takes its default,
  and \<open>Feedback.save\<close> inserts it.
\<close>

definition new_instance :: "attrs \<Rightarrow> string \<Rightarrow> string \<Rightarrow> feedback" where
  "new_instance a ip ua =
     \<lparr>pk = None, created_at = 0,
      actor = (case attrs_get a ''actor'' of None \<Rightarrow> [] | Some v \<Rightarrow> v),
      theme = (case attrs_get a ''theme'' of None \<Rightarrow> [] | Some v \<Rightarrow> v),
      email = (case attrs_get a ''email'' of None \<Rightarrow> [] | Some v \<Rightarrow> v),
      name_company = attrs_get a ''name_company'',
      name_person = (case attrs_get a ''name_person'' of None \<Rightarrow> [] | Some v \<Rightarrow> v),
      message = (case attrs_get a ''message'' of None \<Rightarrow> [] | Some v \<Rightarrow> v),
      status = ''new'',
      ip_address = Some ip, user_agent = Some ua, updated_at = 0\<rparr>"

definition create :: "settings \<Rightarrow> library \<Rightarrow> db \<Rightarrow> int \<Rightarrow> request \<Rightarrow> response \<times> db" where
  "create S L d now req =
     (let client_ip = get_client_ip req;
          user_agent = (case HTTP_USER_AGENT req of None \<Rightarrow> [] | Some u \<Rightarrow> u)
      in if client_ip \<in> set (BLOCKED_IPS S) then (Response 403 Error, d)
         else (case is_valid L d now (data req) of
                 Inl errors \<Rightarrow> (Response 400 (Errors errors), d)
               | Inr a \<Rightarrow>
                   (case Feedback_save L now d (new_instance a client_ip user_agent) of
                      (fb, d') \<Rightarrow> (Response 201 (Success (pk fb)), d'))))"

section \<open>Throttling\<close>

text \<open>
  The view lists two throttle classes and gives each its rate; the admission check itself is
  the framework's \<open>SimpleRateThrottle\<close>: the cache holds, under a key made of the scope and
  the client's identity, the times of the admitted requests, newest first. A request drops
  the times that are a full duration old from the end of the history and is admitted, and
  its time recorded, if fewer than the allowed number remain.
\<close>

type_synonym cache = "string \<Rightarrow> int list option"

definition get_ident :: "settings \<Rightarrow> request \<Rightarrow> string" where
  "get_ident S req =
     (let remote_addr = (case REMOTE_ADDR req of None \<Rightarrow> ''None'' | Some a \<Rightarrow> a)
      in case NUM_PROXIES S of
           Some n \<Rightarrow>
             (case HTTP_X_FORWARDED_FOR req of
                None \<Rightarrow> remote_addr
              | Some x \<Rightarrow>
                  if n = 0 then remote_addr
                  else (let addrs = split (CHR '','') x
                        in strip (addrs ! (length addrs - min n (length addrs)))))
         | None \<Rightarrow>
             (case HTTP_X_FORWARDED_FOR req of
                None \<Rightarrow> remote_addr
              | Some x \<Rightarrow> if x \<noteq> [] then filter (\<lambda>c. \<not> isspace c) x else remote_addr))"

definition cache_key :: "string \<Rightarrow> string \<Rightarrow> string" where
  "cache_key scope ident = ''throttle_'' @ scope @ ''_'' @ ident"

definition allow_request :: "nat \<Rightarrow> string option \<Rightarrow> int \<Rightarrow> cache \<Rightarrow> bool \<times> cache" where
  "allow_request num_requests key now c =
     (case key of
        None \<Rightarrow> (True, c)
      | Some k \<Rightarrow>
          (let history = (case c k of None \<Rightarrow> [] | Some h \<Rightarrow> h);
               history' = rev (dropWhile (\<lambda>t. t \<le> now - hour) (rev history))
           in if length history' \<ge> num_requests then (False, c)
              else (True, c(k \<mapsto> now # history'))))"

text \<open>\<open>FeedbackRateThrottle\<close>: \<open>AnonRateThrottle\<close>, scope \<open>feedback\<close>, rate \<open>5/hour\<close>.\<close>

definition FeedbackRateThrottle :: "settings \<Rightarrow> request \<Rightarrow> int \<Rightarrow> cache \<Rightarrow> bool \<times> cache" where
  "FeedbackRateThrottle S req now c =
     allow_request 5
       (case user req of
          Some u \<Rightarrow> None
        | None \<Rightarrow> Some (cache_key ''feedback'' (get_ident S req))) now c"

text \<open>
  \<open>AuthenticatedFeedbackRateThrottle\<close>: \<open>UserRateThrottle\<close>, scope \<open>feedback_auth\<close>, rate
  \<open>10/hour\<close>; an anonymous client is identified as by the other throttle.
\<close>

definition AuthenticatedFeedbackRateThrottle ::
  "settings \<Rightarrow> request \<Rightarrow> int \<Rightarrow> cache \<Rightarrow> bool \<times> cache" where
  "AuthenticatedFeedbackRateThrottle S req now c =
     allow_request 10
       (Some (cache_key ''feedback_auth''
                (case user req of Some u \<Rightarrow> u | None \<Rightarrow> get_ident S req))) now c"

text \<open>\<open>APIView.check_throttles\<close> runs every throttle of \<open>throttle_classes\<close>, in order.\<close>

definition check_throttles :: "settings \<Rightarrow> request \<Rightarrow> int \<Rightarrow> cache \<Rightarrow> bool \<times> cache" where
  "check_throttles S req now c =
     (case FeedbackRateThrottle S req now c of
        (ok1, c1) \<Rightarrow>
          (case AuthenticatedFeedbackRateThrottle S req now c1 of
             (ok2, c2) \<Rightarrow> (ok1 \<and> ok2, c2)))"

record state =
  store :: db
  throttle_cache :: cache

text \<open>
  A \<open>POST\<close> to \<open>create/\<close>: \<open>APIView.dispatch\<close> checks the throttles in \<open>initial\<close>, before it
  calls the handler; the \<open>Throttled\<close> exception (status 429) goes to \<open>handle_exception\<close>.
\<close>

definition dispatch_create ::
  "settings \<Rightarrow> library \<Rightarrow> state \<Rightarrow> int \<Rightarrow> request \<Rightarrow> response \<times> state" where
  "dispatch_create S L st now req =
     (case check_throttles S req now (throttle_cache st) of
        (ok, c) \<Rightarrow>
          if \<not> ok then (Response 429 Error, st\<lparr>throttle_cache := c\<rparr>)
          else (case create S L (store st) now req of
                  (resp, d) \<Rightarrow> (resp, \<lparr>store = d, throttle_cache = c\<rparr>)))"

section \<open>The detail view\<close>

text \<open>
  \<open>FeedbackDetailView\<close> works through \<open>FeedbackListSerializer\<close>, whose \<open>Meta\<close> lists these
  fields and declares all of them read-only. The serializer takes its input for the
  writable fields only, and \<open>ModelSerializer.update\<close> sets those on the instance and saves it.
\<close>

definition list_fields :: "string list" where
  "list_fields =
     [''id'', ''created_at'', ''actor'', ''actor_display'', ''theme'', ''email'',
      ''name_company'', ''name_person'', ''message'', ''status_display'']"

definition read_only_fields :: "string list" where
  "read_only_fields = list_fields"

definition writable_fields :: "string list" where
  "writable_fields = filter (\<lambda>f. f \<notin> set read_only_fields) list_fields"

definition jstr :: "jvalue \<Rightarrow> string" where
  "jstr v = (case v of JNull \<Rightarrow> [] | JStr s \<Rightarrow> s)"

definition setattr :: "string \<Rightarrow> jvalue \<Rightarrow> feedback \<Rightarrow> feedback" where
  "setattr f v r =
     (if f = ''actor'' then r\<lparr>actor := jstr v\<rparr>
      else if f = ''theme'' then r\<lparr>theme := jstr v\<rparr>
      else if f = ''email'' then r\<lparr>email := jstr v\<rparr>
      else if f = ''name_company'' then
        r\<lparr>name_company := (case v of JNull \<Rightarrow> None | JStr s \<Rightarrow> Some s)\<rparr>
      else if f = ''name_person'' then r\<lparr>name_person := jstr v\<rparr>
      else if f = ''message'' then r\<lparr>message := jstr v\<rparr>
      else if f = ''status'' then r\<lparr>status := jstr v\<rparr>
      else r)"

definition serializer_update :: "payload \<Rightarrow> feedback \<Rightarrow> feedback" where
  "serializer_update p r =
     fold (\<lambda>f r'. case map_of p f of None \<Rightarrow> r' | Some v \<Rightarrow> setattr f v r')
       writable_fields r"

definition get_object :: "db \<Rightarrow> nat \<Rightarrow> feedback option" where
  "get_object d k = find (\<lambda>r. pk r = Some k) (rows d)"

text \<open>\<open>FeedbackDetailView.update\<close> for a request of an administrator.\<close>

definition update :: "library \<Rightarrow> db \<Rightarrow> int \<Rightarrow> nat \<Rightarrow> payload \<Rightarrow> response \<times> db" where
  "update L d now k p =
     (case get_object d k of
        None \<Rightarrow> (Response 404 Error, d)
      | Some instance \<Rightarrow>
          (let update_data = filter (\<lambda>(k, v). k \<in> {''status''}) p
           in if (case map_of update_data ''status'' of
                    None \<Rightarrow> False
                  | Some v \<Rightarrow> (case v of JNull \<Rightarrow> True | JStr s \<Rightarrow> s \<notin> set STATUS_CHOICES))
              then (Response 400 Error, d)
              else (case Feedback_save L now d (serializer_update update_data instance) of
                      (fb, d') \<Rightarrow> (Response 200 (Detail fb), d'))))"

section \<open>Example inputs\<close>

text \<open>
  A deployment with one blocked address and the framework's default for \<open>NUM_PROXIES\<close>, the
  submission of the specification's example, and the table before and after it is accepted
  at time 0.
\<close>

definition example_settings :: settings where
  "example_settings = \<lparr>BLOCKED_IPS = [''198.51.100.9''], NUM_PROXIES = None\<rparr>"

definition example_request :: request where
  "example_request =
     \<lparr>data = [(''actor'', JStr ''author''), (''theme'', JStr ''Partnership inquiry''),
              (''email'', JStr ''JOHN@EXAMPLE.COM ''), (''name_person'', JStr ''John Smith''),
              (''message'', JStr ''Hello, I would like to collaborate.'')],
      HTTP_X_FORWARDED_FOR = None, REMOTE_ADDR = Some ''203.0.113.7'',
      HTTP_USER_AGENT = Some ''curl/8.0'', user = None, is_staff = False\<rparr>"

definition example_attrs :: attrs where
  "example_attrs =
     [(''actor'', Some ''author''), (''theme'', Some ''Partnership inquiry''),
      (''email'', Some ''john@example.com''), (''name_person'', Some ''John Smith''),
      (''message'', Some ''Hello, I would like to collaborate.'')]"

definition empty_db :: db where
  "empty_db = \<lparr>rows = [], next_pk = 1\<rparr>"

definition db_after_first :: db where
  "db_after_first = snd (create example_settings plain_text_library empty_db 0 example_request)"

definition minutes :: "int \<Rightarrow> int" where
  "minutes n = n * 60000000"

section \<open>What the field loop returns\<close>

text \<open>The entries that the loop adds to the validated data and to the error report.\<close>

definition passed_entries :: "library \<Rightarrow> payload \<Rightarrow> string list \<Rightarrow> attrs" where
  "passed_entries L d fs =
     concat (map (\<lambda>f. case run_field L f (map_of d f) of Passed v \<Rightarrow> [(f, v)] | _ \<Rightarrow> []) fs)"

definition failed_entries :: "library \<Rightarrow> payload \<Rightarrow> string list \<Rightarrow> (string \<times> verr list) list" where
  "failed_entries L d fs =
     concat (map (\<lambda>f. case run_field L f (map_of d f) of Failed e \<Rightarrow> [(f, e)] | _ \<Rightarrow> []) fs)"


definition newline_message :: string where
  "newline_message = ''Hello'' @ replicate 11 (CHR 0x0A) @ ''world''"




text \<open>Requests are served one after the other, each at its time.\<close>

fun serve ::
  "settings \<Rightarrow> library \<Rightarrow> state \<Rightarrow> (int \<times> request) list
     \<Rightarrow> (int \<times> request \<times> response) list \<times> state" where
  "serve S L st [] = ([], st)"
| "serve S L st ((t, r) # rs) =
     (case dispatch_create S L st t r of
        (resp, st') \<Rightarrow>
          (case serve S L st' rs of (log, st'') \<Rightarrow> ((t, r, resp) # log, st'')))"

definition empty_state :: state where
  "empty_state = \<lparr>store = empty_db, throttle_cache = Map.empty\<rparr>"

text \<open>A request from the blocked address, and five of them in the first five minutes.\<close>

definition blocked_request :: request where
  "blocked_request = example_request\<lparr>REMOTE_ADDR := Some ''198.51.100.9''\<rparr>"

definition five_blocked :: "(int \<times> request) list" where
  "five_blocked = map (\<lambda>n. (minutes n, blocked_request)) [1, 2, 3, 4, 5]"

section \<open>Sample sanitizers\<close>

text \<open>
  On a text without \<open><\<close> and \<open>>\<close> in which no \<open>&\<close> starts a character reference,
  \<open>strip_tags\<close> returns the text as it is and \<open>bleach.clean\<close> returns it with every \<open>&\<close>
  written \<open>&amp;\<close>, whatever the allow-list. The instance below does so; it is applied to
  such texts only.
\<close>

definition escape_ampersands :: "string \<Rightarrow> string" where
  "escape_ampersands s = concat (map (\<lambda>c. if c = CHR ''&'' then ''&amp;'' else [c]) s)"

definition escaping_library :: library where
  "escaping_library =
     \<lparr>strip_tags = (\<lambda>s. s), bleach_clean = (\<lambda>tags s. escape_ampersands s),
      EmailValidator = (\<lambda>s. True)\<rparr>"

text \<open>
  On a text without \<open>&\<close> in which every \<open><\<close> opens a tag \<open><name>\<close> or \<open></name>\<close> without
  attributes, \<open>bleach.clean\<close> with \<open>strip=True\<close> keeps the tags whose name is in the allow-list
  and drops the other tags, keeping the text between them; \<open>strip_tags\<close> drops every tag.
  \<open>clean_tags\<close> does so (its second argument collects the tag being read); it is applied
  to such texts only.
\<close>

fun clean_tags :: "string list \<Rightarrow> string option \<Rightarrow> string \<Rightarrow> string" where
  "clean_tags tags None [] = []"
| "clean_tags tags (Some t) [] = CHR ''<'' # t"
| "clean_tags tags None (c # s) =
     (if c = CHR ''<'' then clean_tags tags (Some []) s else c # clean_tags tags None s)"
| "clean_tags tags (Some t) (c # s) =
     (if c = CHR ''>'' then
        (if (if starts_with ''/'' t then tl t else t) \<in> set tags then CHR ''<'' # t @ ''>''
         else []) @ clean_tags tags None s
      else clean_tags tags (Some (t @ [c])) s)"

definition tag_library :: library where
  "tag_library =
     \<lparr>strip_tags = clean_tags [] None, bleach_clean = (\<lambda>tags. clean_tags tags None),
      EmailValidator = (\<lambda>s. True)\<rparr>"

text \<open>
  The example submission with an ampersand in its theme, and the same submission as another
  client software might send it: the address in capitals, spaces around the theme.
\<close>

definition ampersand_request :: request where
  "ampersand_request =
     example_request\<lparr>data :=
       [(''actor'', JStr ''author''), (''theme'', JStr ''Research & Development''),
        (''email'', JStr ''john@example.com''), (''name_person'', JStr ''John Smith''),
        (''message'', JStr ''Hello, I would like to collaborate.'')]\<rparr>"

definition ampersand_variant :: request where
  "ampersand_variant =
     example_request\<lparr>data :=
       [(''actor'', JStr ''author''), (''theme'', JStr ''  Research & Development ''),
        (''email'', JStr ''JOHN@EXAMPLE.COM ''), (''name_person'', JStr ''John Smith''),
        (''message'', JStr ''Hello, I would like to collaborate.'')]\<rparr>"

text \<open>A message with a run of twelve letters inside a tag that is not allowed.\<close>

definition markup_message :: string where
  "markup_message = ''Hello <aaaaaaaaaaaa>dear</aaaaaaaaaaaa> friends of mine''"

text \<open>
  The stored example record as an administrator's change form submits it, with markup
  in the theme, the person and the company.
\<close>

definition admin_edit :: feedback where
  "admin_edit =
     (hd (rows db_after_first))
       \<lparr>theme := ''<b>Partnership</b> inquiry'', name_person := ''<i>John</i> Smith'',
        name_company := Some ''<a>Example</a> Ltd''\<rparr>"

section \<open>Counting admitted requests\<close>

text \<open>
  The history that the cache holds under a key, the number of its times later than \<open>s\<close>,
  and the cache keys that the two throttles of the view use for a request.
\<close>

definition history :: "cache \<Rightarrow> string \<Rightarrow> int list" where
  "history c k = (case c k of None \<Rightarrow> [] | Some h \<Rightarrow> h)"










section \<open>Properties of the field loop and of saving\<close>

lemma fields_loop_entries:
  "fields_loop L d fs (ret, errors)
     = (ret @ passed_entries L d fs, errors @ failed_entries L d fs)"
  by (induction fs arbitrary: ret errors)
    (auto simp: passed_entries_def failed_entries_def split: outcome.splits)

lemma to_internal_value_entries:
  "to_internal_value L d =
     (if failed_entries L d create_fields \<noteq> [] then Inl (failed_entries L d create_fields)
      else Inr (passed_entries L d create_fields))"
  by (simp add: to_internal_value_def fields_loop_entries)

lemma map_of_passed_entries:
  "map_of (passed_entries L d fs) f =
     (if f \<in> set fs
      then (case run_field L f (map_of d f) of Passed v \<Rightarrow> Some v | _ \<Rightarrow> None) else None)"
  by (induction fs) (auto simp: passed_entries_def split: outcome.splits)

lemma failed_entries_Nil:
  "failed_entries L d fs = [] \<Longrightarrow> f \<in> set fs \<Longrightarrow> run_field L f (map_of d f) \<noteq> Failed e"
  by (induction fs) (auto simp: failed_entries_def split: outcome.splits)

lemma char_field_not_Skipped: "char_field vs dv \<noteq> Skipped"
  by (simp add: char_field_def Let_def split: option.splits jvalue.splits)

lemma validated_email:
  assumes "to_internal_value L d = Inr a"
  shows "\<exists>s v. map_of d ''email'' = Some (JStr s) \<and> validate_email (strip s) = Inr v
               \<and> attrs_get a ''email'' = Some v"
proof -
  from assms have f: "failed_entries L d create_fields = []"
    and a: "a = passed_entries L d create_fields"
    by (auto simp: to_internal_value_entries split: if_splits)
  have "\<And>e. run_field L ''email'' (map_of d ''email'') \<noteq> Failed e"
    using failed_entries_Nil[OF f] by (simp add: create_fields_def)
  then show ?thesis
    unfolding a attrs_get_def map_of_passed_entries
    by (auto simp: create_fields_def run_field_def then_validate_def char_field_def Let_def
        split: outcome.splits option.splits jvalue.splits sum.splits if_splits)
qed

lemma validated_theme:
  assumes "to_internal_value L d = Inr a"
  shows "\<exists>s v. map_of d ''theme'' = Some (JStr s) \<and> validate_theme L (strip s) = Inr v
               \<and> attrs_get a ''theme'' = Some v"
proof -
  from assms have f: "failed_entries L d create_fields = []"
    and a: "a = passed_entries L d create_fields"
    by (auto simp: to_internal_value_entries split: if_splits)
  have "\<And>e. run_field L ''theme'' (map_of d ''theme'') \<noteq> Failed e"
    using failed_entries_Nil[OF f] by (simp add: create_fields_def)
  then show ?thesis
    unfolding a attrs_get_def map_of_passed_entries
    by (auto simp: create_fields_def run_field_def then_validate_def char_field_def Let_def
        split: outcome.splits option.splits jvalue.splits sum.splits if_splits)
qed

lemma Feedback_save_insert:
  "pk r = None \<Longrightarrow>
   Feedback_save L now d r =
     ((Feedback_clean L r)\<lparr>pk := Some (next_pk d), created_at := now, updated_at := now\<rparr>,
      d\<lparr>rows := rows d @ [(Feedback_clean L r)\<lparr>pk := Some (next_pk d), created_at := now,
                                                updated_at := now\<rparr>],
        next_pk := Suc (next_pk d)\<rparr>)"
  by (simp add: Feedback_save_def Feedback_clean_def Let_def split: option.splits)

lemma Feedback_clean_keeps:
  "email (Feedback_clean L r) = email r" "status (Feedback_clean L r) = status r"
  "pk (Feedback_clean L r) = pk r" "actor (Feedback_clean L r) = actor r"
  "user_agent (Feedback_clean L r) = user_agent r" "ip_address (Feedback_clean L r) = ip_address r"
  by (simp_all add: Feedback_clean_def Let_def split: option.splits)


section \<open>Duplicate suppression\<close>

text \<open>
  What the duplicate check does with one request, given the table. A create request from a
  client that is not blocked, whose fields all pass validation with validated data \<open>a\<close>: if
  the table holds a row whose stored e-mail and theme are the validated ones and that was
  created no more than one hour before \<open>now\<close>, the request is answered 400 with the
  duplicate error and the table is unchanged; if every such row was created more than one
  hour before \<open>now\<close>, the request is answered 201 and one row is added, with the validated
  e-mail, creation time \<open>now\<close> and status \<open>new\<close>. Whether the row of an earlier
  submission holds the validated theme is up to \<open>Feedback.save\<close>.
\<close>

lemma duplicate_guard:
  assumes "get_client_ip req \<notin> set (BLOCKED_IPS S)"
    and "to_internal_value L (data req) = Inr a"
  shows "((\<exists>r\<in>set (rows d). Some (email r) = attrs_get a ''email''
              \<and> Some (theme r) = attrs_get a ''theme'' \<and> now - hour \<le> created_at r)
          \<longrightarrow> create S L d now req
                = (Response 400 (Errors [(''non_field_errors'', [Duplicate])]), d))
       \<and> ((\<forall>r\<in>set (rows d). Some (email r) = attrs_get a ''email''
               \<and> Some (theme r) = attrs_get a ''theme'' \<longrightarrow> created_at r < now - hour)
          \<longrightarrow> (\<exists>fb. create S L d now req
                       = (Response 201 (Success (Some (next_pk d))),
                          d\<lparr>rows := rows d @ [fb], next_pk := Suc (next_pk d)\<rparr>)
                     \<and> Some (email fb) = attrs_get a ''email'' \<and> created_at fb = now
                     \<and> status fb = ''new''))"
proof (intro conjI impI)
  assume "\<exists>r\<in>set (rows d). Some (email r) = attrs_get a ''email''
              \<and> Some (theme r) = attrs_get a ''theme'' \<and> now - hour \<le> created_at r"
  then have "validate d now a = Inl Duplicate"
    by (auto simp: validate_def list_ex_iff)
  with assms show "create S L d now req
                = (Response 400 (Errors [(''non_field_errors'', [Duplicate])]), d)"
    by (simp add: create_def is_valid_def Let_def)
next
  assume old: "\<forall>r\<in>set (rows d). Some (email r) = attrs_get a ''email''
               \<and> Some (theme r) = attrs_get a ''theme'' \<longrightarrow> created_at r < now - hour"
  then have v: "validate d now a = Inr a"
    by (fastforce simp: validate_def list_ex_iff)
  have e: "attrs_get a ''email'' \<noteq> None" using validated_email[OF assms(2)] by auto
  let ?i = "new_instance a (get_client_ip req) (case HTTP_USER_AGENT req of None \<Rightarrow> [] | Some u \<Rightarrow> u)"
  have p: "pk ?i = None" by (simp add: new_instance_def)
  let ?fb = "(Feedback_clean L ?i)\<lparr>pk := Some (next_pk d), created_at := now, updated_at := now\<rparr>"
  have c: "create S L d now req
             = (Response 201 (Success (Some (next_pk d))),
                d\<lparr>rows := rows d @ [?fb], next_pk := Suc (next_pk d)\<rparr>)"
    using assms v unfolding create_def is_valid_def Let_def
    by (simp add: Feedback_save_insert[OF p])
  have "Some (email ?fb) = attrs_get a ''email''"
    using e by (auto simp: Feedback_clean_keeps new_instance_def)
  moreover have "created_at ?fb = now" by simp
  moreover have "status ?fb = ''new''"
    by (simp add: Feedback_clean_keeps new_instance_def)
  ultimately show "\<exists>fb. create S L d now req
                       = (Response 201 (Success (Some (next_pk d))),
                          d\<lparr>rows := rows d @ [fb], next_pk := Suc (next_pk d)\<rparr>)
                     \<and> Some (email fb) = attrs_get a ''email'' \<and> created_at fb = now
                     \<and> status fb = ''new''"
    using c by blast
qed

lemma duplicate_guard_witness:
  "create example_settings plain_text_library db_after_first (minutes 59) example_request
     = (Response 400 (Errors [(''non_field_errors'', [Duplicate])]), db_after_first)
   \<and> (\<exists>fb. create example_settings plain_text_library db_after_first (minutes 61) example_request
             = (Response 201 (Success (Some (next_pk db_after_first))),
                db_after_first\<lparr>rows := rows db_after_first @ [fb], next_pk := Suc (next_pk db_after_first)\<rparr>)
           \<and> Some (email fb) = attrs_get example_attrs ''email'' \<and> created_at fb = minutes 61
           \<and> status fb = ''new'')"
proof -
  have h1: "get_client_ip example_request \<notin> set (BLOCKED_IPS example_settings)" by code_simp
  have h2: "to_internal_value plain_text_library (data example_request) = Inr example_attrs" by code_simp
  have h3: "\<exists>r\<in>set (rows db_after_first). Some (email r) = attrs_get example_attrs ''email''
              \<and> Some (theme r) = attrs_get example_attrs ''theme'' \<and> minutes 59 - hour \<le> created_at r"
    by code_simp
  have h4: "\<forall>r\<in>set (rows db_after_first). Some (email r) = attrs_get example_attrs ''email''
               \<and> Some (theme r) = attrs_get example_attrs ''theme'' \<longrightarrow> created_at r < minutes 61 - hour"
    by code_simp
  from duplicate_guard[OF h1 h2, of db_after_first "minutes 59"] h3
    duplicate_guard[OF h1 h2, of db_after_first "minutes 61"] h4
  show ?thesis by blast
qed

section \<open>The e-mail validator\<close>

lemma split_no_sep: "sep \<notin> set s \<Longrightarrow> split sep s = [s]"
  by (induction s) auto

lemma split_first: "sep \<notin> set p \<Longrightarrow> split sep (p @ sep # s) = p # split sep s"
  by (induction p) auto

lemma split_not_Nil: "split sep s \<noteq> []"
  by (induction s) (auto split: list.splits)

lemma validate_email_one_at:
  assumes "CHR ''@'' \<notin> set local" "CHR ''@'' \<notin> set domain"
  shows "validate_email (local @ CHR ''@'' # domain)
           = (if lower domain \<in> set suspicious_domains then Inl TempMail
              else Inr (strip (lower (local @ CHR ''@'' # domain))))"
  using assms by (simp add: validate_email_def split_first split_no_sep)

text \<open>
  Claim C4. The validator takes as the domain the text between the first and the second
  \<open>@\<close>. An address whose local part is a quoted string with an \<open>@\<close> in it is
  syntactically valid; for such an address at \<open>mailinator.com\<close> the validator compares
  \<open>b"\<close> with the blocklist and returns the address instead of an error.
\<close>

theorem validate_email_second_at:
  \<open>validate_email ''"a@b"@mailinator.com'' = Inr ''"a@b"@mailinator.com''\<close>
  by code_simp

section \<open>The repeated-character check\<close>

lemma takeWhile_replicate_append:
  "length (takeWhile (\<lambda>x. x = c) (replicate k c @ s)) \<ge> k"
  by (induction k) auto

lemma repeated_chars_append: "repeated_chars s \<Longrightarrow> repeated_chars (p @ s)"
  by (induction p) auto

lemma repeated_chars_run:
  assumes "11 \<le> n" "c \<noteq> CHR 0x0A"
  shows "repeated_chars (pre @ replicate n c @ post)"
proof -
  from assms(1) obtain k where n: "n = Suc k" and k: "10 \<le> k"
    by (cases n) auto
  have "10 \<le> length (takeWhile (\<lambda>x. x = c) (replicate k c @ post))"
    using takeWhile_replicate_append[of k c post] k by linarith
  then have "repeated_chars (replicate n c @ post)"
    using assms(2) by (simp add: n)
  then show ?thesis by (rule repeated_chars_append)
qed

text \<open>
  Claim C5. A message whose sanitized form holds the newline eleven times in a row passes
  the message validator: the pattern of the repeated-character check is searched without
  \<open>re.DOTALL\<close>, so its \<open>.\<close> matches every character but the newline.
\<close>

theorem validate_message_newlines:
  "strip (bleach_clean plain_text_library allowed_tags newline_message)
     = ''Hello'' @ replicate 11 (CHR 0x0A) @ ''world''
   \<and> validate_message plain_text_library newline_message = Inr newline_message"
  by code_simp

text \<open>
  For every other character the check does what it announces: if the text that the
  validator checks (the message cleaned with the allow-list, then trimmed) contains a
  character other than the newline 11 or more times in a row, the message is rejected.
\<close>

lemma validate_message_rejects_repeats:
  assumes "strip (bleach_clean L allowed_tags v) = pre @ replicate n c @ post"
    and "11 \<le> n" and "c \<noteq> CHR 0x0A"
  shows "\<exists>e. validate_message L v = Inl e"
proof -
  have "repeated_chars (strip (bleach_clean L allowed_tags v))"
    unfolding assms(1) using assms(2,3) by (rule repeated_chars_run)
  then show ?thesis
    by (simp add: validate_message_def Let_def)
qed

lemma validate_message_rejects_repeats_witness:
  "strip (bleach_clean plain_text_library allowed_tags ''aaaaaaaaaaaa'')
     = [] @ replicate 12 (CHR ''a'') @ []
   \<and> (\<exists>e. validate_message plain_text_library ''aaaaaaaaaaaa'' = Inl e)"
proof -
  have h: "strip (bleach_clean plain_text_library allowed_tags ''aaaaaaaaaaaa'')
     = [] @ replicate 12 (CHR ''a'') @ []" by code_simp
  from validate_message_rejects_repeats[OF h] h show ?thesis by simp
qed

text \<open>
  The check reads the sanitized text, so a run of letters inside a tag that the sanitizer
  drops is not seen: a message that contains \<open>aaaaaaaaaaaa\<close> as the name of such a tag is
  accepted.
\<close>

lemma validate_message_markup_run:
  "py_in ''aaaaaaaaaaaa'' markup_message
   \<and> validate_message tag_library markup_message = Inr ''Hello dear friends of mine''"
  by code_simp

section \<open>The status update\<close>

lemma writable_fields_Nil: "writable_fields = []"
  by (simp add: writable_fields_def read_only_fields_def)

lemma serializer_update_id: "serializer_update p r = r"
  by (simp add: serializer_update_def writable_fields_Nil)

text \<open>
  Claim C2. An administrator's update with \<open>status = completed\<close> of the stored example
  record, whose status is \<open>new\<close>, is answered 200, and the status in the answer and in the
  table is still \<open>new\<close>: the serializer of the view has no writable field.
\<close>

theorem update_leaves_status:
  "fst (update plain_text_library db_after_first (minutes 5) 1 [(''status'', JStr ''completed'')])
     = Response 200 (Detail \<lparr>pk = Some 1, created_at = 0, actor = ''author'',
        theme = ''Partnership inquiry'', email = ''john@example.com'',
        name_company = None, name_person = ''John Smith'',
        message = ''Hello, I would like to collaborate.'', status = ''new'',
        ip_address = Some ''203.0.113.7'', user_agent = Some ''curl/8.0'',
        updated_at = minutes 5\<rparr>)
   \<and> map status (rows db_after_first) = [''new'']
   \<and> map status (rows (snd (update plain_text_library db_after_first (minutes 5) 1
                               [(''status'', JStr ''completed'')]))) = [''new'']"
  by code_simp

section \<open>The error report\<close>









section \<open>The blocklist and the throttles\<close>

text \<open>
  Five requests from the blocked address in five minutes are answered 403, and the sixth,
  a minute later, 429: the throttles are checked before the view looks at the blocklist, so
  the claim C7 as stated fails for a client that is blocked and over quota.
\<close>

theorem blocked_and_over_quota:
  "get_client_ip blocked_request \<in> set (BLOCKED_IPS example_settings)
   \<and> map (\<lambda>(t, r, resp). resp) (fst (serve example_settings plain_text_library empty_state five_blocked))
       = replicate 5 (Response 403 Error)
   \<and> fst (dispatch_create example_settings plain_text_library
            (snd (serve example_settings plain_text_library empty_state five_blocked))
            (minutes 6) blocked_request) = Response 429 Error"
  by code_simp

text \<open>
  Claim C7, amended. A create request from a blocked address is answered 403 if it passes
  the throttles and 429 if it does not; in both cases whatever its fields hold, and the
  table is unchanged.
\<close>

theorem blocked_is_refused:
  assumes "get_client_ip req \<in> set (BLOCKED_IPS S)"
  shows "fst (dispatch_create S L st now req)
           = (if fst (check_throttles S req now (throttle_cache st))
              then Response 403 Error else Response 429 Error)
         \<and> store (snd (dispatch_create S L st now req)) = store st"
  using assms
  by (simp add: dispatch_create_def create_def Let_def split: prod.splits)

theorem blocked_is_refused_witness:
  "get_client_ip blocked_request \<in> set (BLOCKED_IPS example_settings)
   \<and> fst (dispatch_create example_settings plain_text_library empty_state (minutes 1) blocked_request)
       = Response 403 Error
   \<and> store (snd (dispatch_create example_settings plain_text_library empty_state (minutes 1)
                   blocked_request)) = store empty_state"
proof -
  have h: "get_client_ip blocked_request \<in> set (BLOCKED_IPS example_settings)" by code_simp
  have t: "fst (check_throttles example_settings blocked_request (minutes 1)
                 (throttle_cache empty_state))" by code_simp
  from blocked_is_refused[OF h, of plain_text_library empty_state "minutes 1"] h t
  show ?thesis by simp
qed

section \<open>Identical submissions\<close>

text \<open>
  Claim C1. A submission with the theme \<open>Research & Development\<close> is accepted at time 0 and
  the identical submission one minute later is accepted as well: the serializer validates
  and looks up the theme \<open>Research & Development\<close>, and \<open>Feedback.save\<close> stores what the
  sanitizer makes of it, \<open>Research &amp; Development\<close>, so the lookup of the second
  submission finds no row.
\<close>

theorem identical_submissions_accepted:
  "to_internal_value escaping_library (data ampersand_request)
     = Inr [(''actor'', Some ''author''), (''theme'', Some ''Research & Development''),
            (''email'', Some ''john@example.com''), (''name_person'', Some ''John Smith''),
            (''message'', Some ''Hello, I would like to collaborate.'')]
   \<and> fst (create example_settings escaping_library empty_db 0 ampersand_request)
       = Response 201 (Success (Some 1))
   \<and> fst (create example_settings escaping_library
            (snd (create example_settings escaping_library empty_db 0 ampersand_request))
            (minutes 1) ampersand_request)
       = Response 201 (Success (Some 2))
   \<and> map (\<lambda>r. (email r, theme r, created_at r))
         (rows (snd (create example_settings escaping_library
            (snd (create example_settings escaping_library empty_db 0 ampersand_request))
            (minutes 1) ampersand_request)))
       = [(''john@example.com'', ''Research &amp; Development'', 0),
          (''john@example.com'', ''Research &amp; Development'', minutes 1)]"
  by code_simp

text \<open>
  Claim C10. Two submissions one minute apart whose addresses differ in letter case and in
  a final space and whose themes differ in the spaces around them have the same validated
  address and theme, and both are accepted: the theme that is stored is not the validated
  theme that the lookup compares.
\<close>

theorem variant_submissions_accepted:
  "map (attrs_get (case to_internal_value escaping_library (data ampersand_variant) of
                     Inr a \<Rightarrow> a | Inl e \<Rightarrow> [])) [''email'', ''theme'']
     = map (attrs_get (case to_internal_value escaping_library (data ampersand_request) of
                         Inr a \<Rightarrow> a | Inl e \<Rightarrow> [])) [''email'', ''theme'']
   \<and> map (attrs_get (case to_internal_value escaping_library (data ampersand_variant) of
                       Inr a \<Rightarrow> a | Inl e \<Rightarrow> [])) [''email'', ''theme'']
       = [Some ''john@example.com'', Some ''Research & Development'']
   \<and> fst (create example_settings escaping_library empty_db 0 ampersand_variant)
       = Response 201 (Success (Some 1))
   \<and> create example_settings escaping_library
        (snd (create example_settings escaping_library empty_db 0 ampersand_variant))
        (minutes 1) ampersand_request
       = (Response 201 (Success (Some 2)),
          \<lparr>rows = rows (snd (create example_settings escaping_library empty_db 0 ampersand_variant))
                    @ [\<lparr>pk = Some 2, created_at = minutes 1, actor = ''author'',
                        theme = ''Research &amp; Development'', email = ''john@example.com'',
                        name_company = None, name_person = ''John Smith'',
                        message = ''Hello, I would like to collaborate.'', status = ''new'',
                        ip_address = Some ''203.0.113.7'', user_agent = Some ''curl/8.0'',
                        updated_at = minutes 1\<rparr>],
           next_pk = 3\<rparr>)"
  by code_simp

section \<open>Sanitizing on save\<close>

text \<open>
  Claim C8. \<open>Feedback.save\<close> cleans the theme, the person and the company with the default
  allow-list of the sanitizer, which holds \<open>b\<close>, \<open>i\<close> and \<open>a\<close> among others: when an
  administrator's change form saves the stored example record with markup in these
  fields, the markup is stored.
\<close>

theorem save_keeps_default_tags:
  "''b'' \<in> set ALLOWED_TAGS \<and> ''i'' \<in> set ALLOWED_TAGS \<and> ''a'' \<in> set ALLOWED_TAGS
   \<and> rows (snd (Feedback_save tag_library (minutes 5) db_after_first admin_edit))
       = [\<lparr>pk = Some 1, created_at = 0, actor = ''author'',
           theme = ''<b>Partnership</b> inquiry'', email = ''john@example.com'',
           name_company = Some ''<a>Example</a> Ltd'', name_person = ''<i>John</i> Smith'',
           message = ''Hello, I would like to collaborate.'', status = ''new'',
           ip_address = Some ''203.0.113.7'', user_agent = Some ''curl/8.0'',
           updated_at = minutes 5\<rparr>]"
  by code_simp

section \<open>The rate limits\<close>



lemma serve_times: "map fst (fst (serve S L st reqs)) = map fst reqs"
proof (induction reqs arbitrary: st)
  case Nil
  show ?case by simp
next
  case (Cons x reqs)
  obtain t r where x: "x = (t, r)" by force
  obtain resp st' where d: "dispatch_create S L st t r = (resp, st')" by force
  obtain log st'' where s: "serve S L st' reqs = (log, st'')" by force
  from Cons[of st'] s have "map fst log = map fst reqs" by simp
  then show ?case by (simp add: x d s)
qed


























end
